theory Spec2Isabelle
  imports Main "HOL-Library.Word"
begin

section \<open>The race detector bridge of the Go runtime (src/pkg/runtime/race.c)\<close>

text \<open>
  The file race.c relays events of the runtime to the race detector, the external package
  runtime/race. The model keeps the runtime data that race.c reads and writes in one record,
  passes it through every function, and records each call into the detector in a log.
\<close>

subsection \<open>Data\<close>

text \<open>
  \<open>uintptr\<close> and \<open>void*\<close> are 64-bit unsigned words (the detector runs on amd64 only).
  A goroutine identifier is an \<open>int32\<close>, as the prototypes of the detector and of
  \<open>runtime\<cdot>racegostart\<close> and \<open>runtime\<cdot>racegoend\<close> declare it; \<open>-\<close> on words wraps around.
  (Were the field of the runtime wider, the conversion to the \<open>int32\<close> parameter would cut
  \<open>g->goid - 1\<close> to the same 32 bits.)
\<close>

type_synonym uintptr = "64 word"
type_synonym int32 = "32 word"
type_synonym int64 = "64 word"

text \<open>
  The struct \<open>G\<close> is declared in runtime.h, outside race.c. Of its fields race.c uses
  \<open>goid\<close> and \<open>raceignore\<close>. The width of \<open>raceignore\<close> is a parameter: the functions that
  read or write the counter take it as a word \<open>'w word\<close> of any width, read as a signed
  integer by \<open>sint\<close>.
\<close>

record 'c G =
  goid :: int32
  raceignore :: 'c

text \<open>A pointer to a \<open>G\<close> is its address; \<open>nil\<close> is \<open>None\<close> where the code tests for it.\<close>

type_synonym gptr = nat

text \<open>The procedures of the detector (the prototypes at the head of race.c), as the events of the log.\<close>

datatype event =
    Initialize
  | MapShadow uintptr uintptr
  | Finalize
  | FinalizerGoroutine int32
  | Read int32 uintptr uintptr
  | Write int32 uintptr uintptr
  | ReadRange int32 uintptr uintptr uintptr uintptr
  | WriteRange int32 uintptr uintptr uintptr uintptr
  | FuncEnter int32 uintptr
  | FuncExit int32
  | Malloc int32 uintptr uintptr uintptr
  | Free uintptr
  | GoStart int32 int32 uintptr
  | GoEnd int32
  | Acquire int32 uintptr
  | Release int32 uintptr
  | ReleaseMerge int32 uintptr

text \<open>
  The state of the runtime as race.c sees it:
  \<^item> \<open>allg\<close>: the \<open>G\<close> structs, by address;
  \<open>g\<close>: the register variable \<open>g\<close>, the goroutine running on this thread;
  \<^item> \<open>curg\<close> and \<open>racecall\<close>: the fields \<open>m->curg\<close> and \<open>m->racecall\<close> of the thread \<open>m\<close>;
  \<^item> \<open>noptrdata\<close>, \<open>enoptrbss\<close>: the linker symbols bounding the data segments;
  \<^item> \<open>mheap_addr\<close>, \<open>mheap_size\<close>: the address \<open>&runtime\<cdot>mheap\<close> and \<open>sizeof runtime\<cdot>mheap\<close>;
  \<^item> \<open>arena_start\<close>, \<open>arena_used\<close>: the fields of \<open>runtime\<cdot>mheap\<close>;
  \<^item> \<open>lessstack\<close>: the address of the function \<open>runtime\<cdot>lessstack\<close>;
  \<^item> \<open>callers\<close>: the stack walker \<open>runtime\<cdot>callers\<close>, defined outside race.c:
    \<open>callers s skip pc\<close> is the content of the variable \<open>pc\<close> after the call
    \<open>runtime\<cdot>callers(skip, &pc, 1)\<close> (it is \<open>pc\<close> itself when the walker stores no frame);
  \<^item> \<open>calls\<close>: the log of the calls made into the detector, oldest first, each with the
    value that \<open>m->racecall\<close> had when the call was made.
\<close>

record 'c runtime =
  allg :: "gptr \<Rightarrow> 'c G"
  g :: gptr
  curg :: "gptr option"
  racecall :: bool
  noptrdata :: uintptr
  enoptrbss :: uintptr
  mheap_addr :: uintptr
  mheap_size :: uintptr
  arena_start :: uintptr
  arena_used :: uintptr
  lessstack :: uintptr
  callers :: "nat \<Rightarrow> uintptr \<Rightarrow> uintptr"
  calls :: "(bool \<times> event) list"

text \<open>A call into the detector: the detector is opaque, the call is appended to the log.\<close>

definition detector :: "event \<Rightarrow> 'c runtime \<Rightarrow> 'c runtime" where
  "detector ev s = s\<lparr>calls := calls s @ [(racecall s, ev)]\<rparr>"

subsection \<open>The address classifier\<close>

text \<open>
  \<^verbatim>\<open>
  static bool onstack(uintptr argp) {
      if((byte*)argp >= noptrdata && (byte*)argp < enoptrbss) return false;
      if((byte*)argp >= runtime.mheap.arena_start && (byte*)argp < runtime.mheap.arena_used) return false;
      return true;
  }
  \<close>
\<close>

definition onstack :: "'c runtime \<Rightarrow> uintptr \<Rightarrow> bool" where
  "onstack s argp =
     (if argp \<ge> noptrdata s \<and> argp < enoptrbss s then False
      else if argp \<ge> arena_start s \<and> argp < arena_used s then False
      else True)"

subsection \<open>Lifecycle hooks\<close>

text \<open>
  \<open>runtime\<cdot>raceinit\<close> maps the shadow of the data segments below and above \<open>runtime\<cdot>mheap\<close>;
  the differences of pointers are taken in \<open>uintptr\<close>.
\<close>

definition raceinit :: "'c runtime \<Rightarrow> 'c runtime" where
  "raceinit s =
     (let s1 = s\<lparr>racecall := True\<rparr>;
          s2 = detector Initialize s1;
          sz = mheap_addr s2 - noptrdata s2;
          s3 = (if sz \<noteq> 0 then detector (MapShadow (noptrdata s2) sz) s2 else s2);
          sz' = enoptrbss s3 - (mheap_addr s3 + mheap_size s3);
          s4 = (if sz' \<noteq> 0 then detector (MapShadow (mheap_addr s3 + mheap_size s3) sz') s3 else s3)
      in s4\<lparr>racecall := False\<rparr>)"

definition racefini :: "'c runtime \<Rightarrow> 'c runtime" where
  "racefini s =
     (let s1 = s\<lparr>racecall := True\<rparr>;
          s2 = detector Finalize s1
      in s2\<lparr>racecall := False\<rparr>)"

definition racemapshadow :: "uintptr \<Rightarrow> uintptr \<Rightarrow> 'c runtime \<Rightarrow> 'c runtime" where
  "racemapshadow addr size' s =
     (let s1 = s\<lparr>racecall := True\<rparr>;
          s2 = detector (MapShadow addr size') s1
      in s2\<lparr>racecall := False\<rparr>)"

subsection \<open>Probes called from instrumented code\<close>

text \<open>
  \<open>runtime\<cdot>getcallerpc(&addr)\<close> is the return address of the probe's own frame. It is an
  input of the call and is passed to the model as the argument \<open>callerpc\<close>.
  \<^verbatim>\<open>
  void runtime.racewrite(uintptr addr) {
      if(!onstack(addr)) {
          m->racecall = true;
          runtime/race.Write(g->goid-1, (void*)addr, runtime.getcallerpc(&addr));
          m->racecall = false;
      }
  }
  \<close>
\<close>

definition racewrite :: "uintptr \<Rightarrow> uintptr \<Rightarrow> 'c runtime \<Rightarrow> 'c runtime" where
  "racewrite addr callerpc s =
     (if \<not> onstack s addr then
        let s1 = s\<lparr>racecall := True\<rparr>;
            s2 = detector (Write (goid (allg s1 (g s1)) - 1) addr callerpc) s1
        in s2\<lparr>racecall := False\<rparr>
      else s)"

definition raceread :: "uintptr \<Rightarrow> uintptr \<Rightarrow> 'c runtime \<Rightarrow> 'c runtime" where
  "raceread addr callerpc s =
     (if \<not> onstack s addr then
        let s1 = s\<lparr>racecall := True\<rparr>;
            s2 = detector (Read (goid (allg s1 (g s1)) - 1) addr callerpc) s1
        in s2\<lparr>racecall := False\<rparr>
      else s)"

text \<open>
  \<^verbatim>\<open>
  void runtime.racefuncenter(uintptr pc) {
      if(pc == (uintptr)runtime.lessstack ||
         (pc >= (uintptr)runtime.mheap.arena_start && pc < (uintptr)runtime.mheap.arena_used))
          runtime.callers(2, &pc, 1);
      m->racecall = true;
      runtime/race.FuncEnter(g->goid-1, (void*)pc);
      m->racecall = false;
  }
  \<close>
\<close>

definition racefuncenter :: "uintptr \<Rightarrow> 'c runtime \<Rightarrow> 'c runtime" where
  "racefuncenter pc s =
     (let pc1 = (if pc = lessstack s \<or> (pc \<ge> arena_start s \<and> pc < arena_used s)
                 then callers s 2 pc else pc);
          s1 = s\<lparr>racecall := True\<rparr>;
          s2 = detector (FuncEnter (goid (allg s1 (g s1)) - 1) pc1) s1
      in s2\<lparr>racecall := False\<rparr>)"

definition racefuncexit :: "'c runtime \<Rightarrow> 'c runtime" where
  "racefuncexit s =
     (let s1 = s\<lparr>racecall := True\<rparr>;
          s2 = detector (FuncExit (goid (allg s1 (g s1)) - 1)) s1
      in s2\<lparr>racecall := False\<rparr>)"

subsection \<open>Allocation and goroutine lifecycle\<close>

text \<open>
  \<^verbatim>\<open>
  void runtime.racemalloc(void *p, uintptr sz, void *pc) {
      // use m->curg because runtime.stackalloc() is called from g0
      if(m->curg == nil) return;
      m->racecall = true;
      runtime/race.Malloc(m->curg->goid-1, p, sz, pc);
      m->racecall = false;
  }
  \<close>
\<close>

definition racemalloc :: "uintptr \<Rightarrow> uintptr \<Rightarrow> uintptr \<Rightarrow> 'c runtime \<Rightarrow> 'c runtime" where
  "racemalloc p sz pc s =
     (case curg s of
        None \<Rightarrow> s
      | Some cg \<Rightarrow>
          let s1 = s\<lparr>racecall := True\<rparr>;
              s2 = detector (Malloc (goid (allg s1 cg) - 1) p sz pc) s1
          in s2\<lparr>racecall := False\<rparr>)"

definition racefree :: "uintptr \<Rightarrow> 'c runtime \<Rightarrow> 'c runtime" where
  "racefree p s =
     (let s1 = s\<lparr>racecall := True\<rparr>;
          s2 = detector (Free p) s1
      in s2\<lparr>racecall := False\<rparr>)"

text \<open>
  \<^verbatim>\<open>
  void runtime.racegostart(int32 goid, void *pc) {
      m->racecall = true;
      runtime/race.GoStart(g->goid-1, goid-1, pc);
      m->racecall = false;
  }
  void runtime.racegoend(int32 goid) {
      m->racecall = true;
      runtime/race.GoEnd(goid-1);
      m->racecall = false;
  }
  \<close>
  The parameter \<open>goid\<close> of the source is \<open>chgoid\<close> here, the field keeps the name.
\<close>

definition racegostart :: "int32 \<Rightarrow> uintptr \<Rightarrow> 'c runtime \<Rightarrow> 'c runtime" where
  "racegostart chgoid pc s =
     (let s1 = s\<lparr>racecall := True\<rparr>;
          s2 = detector (GoStart (goid (allg s1 (g s1)) - 1) (chgoid - 1) pc) s1
      in s2\<lparr>racecall := False\<rparr>)"

definition racegoend :: "int32 \<Rightarrow> 'c runtime \<Rightarrow> 'c runtime" where
  "racegoend chgoid s =
     (let s1 = s\<lparr>racecall := True\<rparr>;
          s2 = detector (GoEnd (chgoid - 1)) s1
      in s2\<lparr>racecall := False\<rparr>)"

definition racefingo :: "'c runtime \<Rightarrow> 'c runtime" where
  "racefingo s =
     (let s1 = s\<lparr>racecall := True\<rparr>;
          s2 = detector (FinalizerGoroutine (goid (allg s1 (g s1)) - 1)) s1
      in s2\<lparr>racecall := False\<rparr>)"

subsection \<open>Accesses with an explicit caller\<close>

text \<open>
  \<^verbatim>\<open>
  static void memoryaccess(void *addr, uintptr callpc, uintptr pc, bool write) {
      int64 goid;
      if(!onstack((uintptr)addr)) {
          m->racecall = true;
          goid = g->goid-1;
          if(callpc) {
              if(callpc == (uintptr)runtime.lessstack ||
                 (callpc >= (uintptr)runtime.mheap.arena_start && callpc < (uintptr)runtime.mheap.arena_used))
                  runtime.callers(3, &callpc, 1);
              runtime/race.FuncEnter(goid, (void*)callpc);
          }
          if(write) runtime/race.Write(goid, addr, (void*)pc);
          else      runtime/race.Read(goid, addr, (void*)pc);
          if(callpc) runtime/race.FuncExit(goid);
          m->racecall = false;
      }
  }
  \<close>
  The local \<open>goid\<close> is an \<open>int64\<close>: the difference is sign-extended into it (\<open>scast\<close>) and
  cut to the \<open>int32\<close> parameter of the detector at each call (\<open>ucast\<close>). The local is
  \<open>goid64\<close> here. The second test of \<open>callpc\<close> reads the variable that the stack walker may
  have overwritten, \<open>callpc1\<close> here.
\<close>

definition memoryaccess :: "uintptr \<Rightarrow> uintptr \<Rightarrow> uintptr \<Rightarrow> bool \<Rightarrow> 'c runtime \<Rightarrow> 'c runtime" where
  "memoryaccess addr callpc pc write s =
     (if \<not> onstack s addr then
        let s1 = s\<lparr>racecall := True\<rparr>;
            goid64 = (scast (goid (allg s1 (g s1)) - 1) :: int64);
            callpc1 = (if callpc \<noteq> 0 then
                         (if callpc = lessstack s1 \<or> (callpc \<ge> arena_start s1 \<and> callpc < arena_used s1)
                          then callers s1 3 callpc else callpc)
                       else callpc);
            s2 = (if callpc \<noteq> 0 then detector (FuncEnter (ucast goid64) callpc1) s1 else s1);
            s3 = (if write then detector (Write (ucast goid64) addr pc) s2
                  else detector (Read (ucast goid64) addr pc) s2);
            s4 = (if callpc1 \<noteq> 0 then detector (FuncExit (ucast goid64)) s3 else s3)
        in s4\<lparr>racecall := False\<rparr>
      else s)"



text \<open>\<open>rangeaccess\<close> is \<open>memoryaccess\<close> with \<open>WriteRange\<close> and \<open>ReadRange\<close>, which carry \<open>size\<close> and \<open>step\<close>.\<close>

definition rangeaccess ::
  "uintptr \<Rightarrow> uintptr \<Rightarrow> uintptr \<Rightarrow> uintptr \<Rightarrow> uintptr \<Rightarrow> bool \<Rightarrow> 'c runtime \<Rightarrow> 'c runtime" where
  "rangeaccess addr size' step callpc pc write s =
     (if \<not> onstack s addr then
        let s1 = s\<lparr>racecall := True\<rparr>;
            goid64 = (scast (goid (allg s1 (g s1)) - 1) :: int64);
            callpc1 = (if callpc \<noteq> 0 then
                         (if callpc = lessstack s1 \<or> (callpc \<ge> arena_start s1 \<and> callpc < arena_used s1)
                          then callers s1 3 callpc else callpc)
                       else callpc);
            s2 = (if callpc \<noteq> 0 then detector (FuncEnter (ucast goid64) callpc1) s1 else s1);
            s3 = (if write then detector (WriteRange (ucast goid64) addr size' step pc) s2
                  else detector (ReadRange (ucast goid64) addr size' step pc) s2);
            s4 = (if callpc1 \<noteq> 0 then detector (FuncExit (ucast goid64)) s3 else s3)
        in s4\<lparr>racecall := False\<rparr>
      else s)"



text \<open>\<open>RaceRead\<close> and \<open>RaceWrite\<close> pass no caller and their own return address.\<close>

definition RaceRead :: "uintptr \<Rightarrow> uintptr \<Rightarrow> 'c runtime \<Rightarrow> 'c runtime" where
  "RaceRead addr callerpc s = memoryaccess addr 0 callerpc False s"

definition RaceWrite :: "uintptr \<Rightarrow> uintptr \<Rightarrow> 'c runtime \<Rightarrow> 'c runtime" where
  "RaceWrite addr callerpc s = memoryaccess addr 0 callerpc True s"

subsection \<open>Synchronisation events\<close>

text \<open>
  \<^verbatim>\<open>
  void runtime.raceacquireg(G *gp, void *addr) {
      if(g->raceignore) return;
      m->racecall = true;
      runtime/race.Acquire(gp->goid-1, addr);
      m->racecall = false;
  }
  \<close>
  The test reads the counter of \<open>g\<close>, the running goroutine; the identifier is that of \<open>gp\<close>.
\<close>

definition raceacquireg :: "gptr \<Rightarrow> uintptr \<Rightarrow> ('w::len) word runtime \<Rightarrow> 'w word runtime" where
  "raceacquireg gp addr s =
     (if raceignore (allg s (g s)) \<noteq> 0 then s
      else
        let s1 = s\<lparr>racecall := True\<rparr>;
            s2 = detector (Acquire (goid (allg s1 gp) - 1) addr) s1
        in s2\<lparr>racecall := False\<rparr>)"

definition raceacquire :: "uintptr \<Rightarrow> ('w::len) word runtime \<Rightarrow> 'w word runtime" where
  "raceacquire addr s = raceacquireg (g s) addr s"

definition racereleaseg :: "gptr \<Rightarrow> uintptr \<Rightarrow> ('w::len) word runtime \<Rightarrow> 'w word runtime" where
  "racereleaseg gp addr s =
     (if raceignore (allg s (g s)) \<noteq> 0 then s
      else
        let s1 = s\<lparr>racecall := True\<rparr>;
            s2 = detector (Release (goid (allg s1 gp) - 1) addr) s1
        in s2\<lparr>racecall := False\<rparr>)"

definition racerelease :: "uintptr \<Rightarrow> ('w::len) word runtime \<Rightarrow> 'w word runtime" where
  "racerelease addr s = racereleaseg (g s) addr s"

definition racereleasemergeg :: "gptr \<Rightarrow> uintptr \<Rightarrow> ('w::len) word runtime \<Rightarrow> 'w word runtime" where
  "racereleasemergeg gp addr s =
     (if raceignore (allg s (g s)) \<noteq> 0 then s
      else
        let s1 = s\<lparr>racecall := True\<rparr>;
            s2 = detector (ReleaseMerge (goid (allg s1 gp) - 1) addr) s1
        in s2\<lparr>racecall := False\<rparr>)"

definition racereleasemerge :: "uintptr \<Rightarrow> ('w::len) word runtime \<Rightarrow> 'w word runtime" where
  "racereleasemerge addr s = racereleasemergeg (g s) addr s"

definition RaceAcquire :: "uintptr \<Rightarrow> ('w::len) word runtime \<Rightarrow> 'w word runtime" where
  "RaceAcquire addr s = raceacquire addr s"

definition RaceRelease :: "uintptr \<Rightarrow> ('w::len) word runtime \<Rightarrow> 'w word runtime" where
  "RaceRelease addr s = racerelease addr s"

definition RaceReleaseMerge :: "uintptr \<Rightarrow> ('w::len) word runtime \<Rightarrow> 'w word runtime" where
  "RaceReleaseMerge addr s = racereleasemerge addr s"

subsection \<open>Disable and Enable\<close>

text \<open>
  \<^verbatim>\<open>
  void runtime.RaceDisable(void) { g->raceignore++; }
  void runtime.RaceEnable(void)  { g->raceignore--; }
  \<close>
  Both write the field of the \<open>G\<close> that \<open>g\<close> points to; on a word the sum wraps around.
\<close>

definition RaceDisable :: "('w::len) word runtime \<Rightarrow> 'w word runtime" where
  "RaceDisable s =
     s\<lparr>allg := (allg s)(g s := (allg s (g s))\<lparr>raceignore := raceignore (allg s (g s)) + 1\<rparr>)\<rparr>"

definition RaceEnable :: "('w::len) word runtime \<Rightarrow> 'w word runtime" where
  "RaceEnable s =
     s\<lparr>allg := (allg s)(g s := (allg s (g s))\<lparr>raceignore := raceignore (allg s (g s)) - 1\<rparr>)\<rparr>"

text \<open>
  A run of \<open>RaceDisable\<close> and \<open>RaceEnable\<close> calls in any order is a list of \<open>toggle\<close>s,
  executed from the left by \<open>fold toggle_call\<close>.
\<close>

datatype toggle = Disable | Enable

fun toggle_call :: "toggle \<Rightarrow> ('w::len) word runtime \<Rightarrow> 'w word runtime" where
  "toggle_call Disable s = RaceDisable s"
| "toggle_call Enable s = RaceEnable s"

subsection \<open>The identifiers that reach the detector\<close>

text \<open>
  \<open>goids_of\<close> lists the goroutine identifiers among the arguments of a detector call, after
  the prototypes; \<open>forwarded_ids s s'\<close> lists those of the calls logged between \<open>s\<close> and \<open>s'\<close>.
\<close>

fun goids_of :: "event \<Rightarrow> int32 list" where
  "goids_of Initialize = []"
| "goids_of (MapShadow addr sz) = []"
| "goids_of Finalize = []"
| "goids_of (FinalizerGoroutine i) = [i]"
| "goids_of (Read i addr pc) = [i]"
| "goids_of (Write i addr pc) = [i]"
| "goids_of (ReadRange i addr sz step pc) = [i]"
| "goids_of (WriteRange i addr sz step pc) = [i]"
| "goids_of (FuncEnter i pc) = [i]"
| "goids_of (FuncExit i) = [i]"
| "goids_of (Malloc i p sz pc) = [i]"
| "goids_of (Free p) = []"
| "goids_of (GoStart p c pc) = [p, c]"
| "goids_of (GoEnd i) = [i]"
| "goids_of (Acquire i addr) = [i]"
| "goids_of (Release i addr) = [i]"
| "goids_of (ReleaseMerge i addr) = [i]"

definition forwarded_ids :: "'c runtime \<Rightarrow> 'c runtime \<Rightarrow> int32 list" where
  "forwarded_ids s s' = concat (map (\<lambda>(flag, ev). goids_of ev) (drop (length (calls s)) (calls s')))"

subsection \<open>A concrete runtime\<close>

text \<open>
  Three goroutines with an 8-bit counter: the running one has identifier 3, the goroutine
  at address 2 has identifier 5 and sits inside two \<open>RaceDisable\<close> calls. The data segments
  are \<open>[0x400000, 0x500000)\<close>, the heap arena in use is \<open>[0xC000000000, 0xC000100000)\<close>.
\<close>

definition ex_allg :: "gptr \<Rightarrow> 8 word G" where
  "ex_allg p =
     (if p = 1 then \<lparr>goid = 3, raceignore = 0\<rparr>
      else if p = 2 then \<lparr>goid = 5, raceignore = 2\<rparr>
      else \<lparr>goid = 1, raceignore = 0\<rparr>)"

definition ex :: "8 word runtime" where
  "ex = \<lparr>allg = ex_allg, g = 1, curg = Some 2, racecall = False,
          noptrdata = 0x400000, enoptrbss = 0x500000,
          mheap_addr = 0x480000, mheap_size = 0x1000,
          arena_start = 0xC000000000, arena_used = 0xC000100000,
          lessstack = 0x401000,
          callers = (\<lambda>skip pc. 0x402000 + of_nat skip),
          calls = []\<rparr>"


subsection \<open>The effect of a run of Disable and Enable calls\<close>

text \<open>\<open>bump d\<close> adds \<open>d\<close> to the counter of the running goroutine and leaves all else alone.\<close>

definition bump :: "'w::len word \<Rightarrow> 'w word runtime \<Rightarrow> 'w word runtime" where
  "bump d s = s\<lparr>allg := (allg s)(g s := (allg s (g s))\<lparr>raceignore := raceignore (allg s (g s)) + d\<rparr>)\<rparr>"

section \<open>Properties\<close>

subsection \<open>Auxiliary facts\<close>

lemma ex_simps:
  "allg ex = ex_allg" "g ex = 1" "curg ex = Some 2" "racecall ex = False"
  "noptrdata ex = 0x400000" "enoptrbss ex = 0x500000"
  "arena_start ex = 0xC000000000" "arena_used ex = 0xC000100000"
  "lessstack ex = 0x401000" "callers ex = (\<lambda>skip pc. 0x402000 + of_nat skip)" "calls ex = []"
  by (simp_all add: ex_def)

lemma ex_onstack:
  "onstack ex 0x7FFF0000" "\<not> onstack ex 0xC000000010" "\<not> onstack ex 0x400000" "onstack ex 0x2000"
  by (simp_all add: onstack_def ex_simps)

text \<open>Cutting the sign-extended identifier back to 32 bits gives the identifier.\<close>

lemma ucast_scast_goid: "(ucast (scast (x::32 word) :: 64 word) :: 32 word) = x"
  by (rule bit_word_eqI) (auto simp add: bit_simps)

lemma raceread_eq:
  "raceread addr pc s =
     (if onstack s addr then s
      else s\<lparr>racecall := False, calls := calls s @ [(True, Read (goid (allg s (g s)) - 1) addr pc)]\<rparr>)"
  by (simp add: raceread_def detector_def)

lemma racewrite_eq:
  "racewrite addr pc s =
     (if onstack s addr then s
      else s\<lparr>racecall := False, calls := calls s @ [(True, Write (goid (allg s (g s)) - 1) addr pc)]\<rparr>)"
  by (simp add: racewrite_def detector_def)

lemma racemalloc_eq:
  "racemalloc p sz pc s =
     (case curg s of None \<Rightarrow> s
      | Some cg \<Rightarrow> s\<lparr>racecall := False, calls := calls s @ [(True, Malloc (goid (allg s cg) - 1) p sz pc)]\<rparr>)"
  by (simp add: racemalloc_def detector_def split: option.split)

lemma memoryaccess_tracked:
  assumes "\<not> onstack s addr"
  shows "memoryaccess addr callpc pc write s =
     s\<lparr>racecall := False,
       calls := calls s
         @ (if callpc \<noteq> 0 then [(True, FuncEnter (goid (allg s (g s)) - 1)
               (if callpc = lessstack s \<or> (callpc \<ge> arena_start s \<and> callpc < arena_used s)
                then callers s 3 callpc else callpc))] else [])
         @ [(True, if write then Write (goid (allg s (g s)) - 1) addr pc
                   else Read (goid (allg s (g s)) - 1) addr pc)]
         @ (if callpc \<noteq> 0 \<and>
               (if callpc = lessstack s \<or> (callpc \<ge> arena_start s \<and> callpc < arena_used s)
                then callers s 3 callpc else callpc) \<noteq> 0
            then [(True, FuncExit (goid (allg s (g s)) - 1))] else [])\<rparr>"
  using assms by (simp add: memoryaccess_def detector_def ucast_scast_goid Let_def)

lemma memoryaccess_stack: "onstack s addr \<Longrightarrow> memoryaccess addr callpc pc write s = s"
  by (simp add: memoryaccess_def)

lemma rangeaccess_tracked:
  assumes "\<not> onstack s addr"
  shows "rangeaccess addr sz step callpc pc write s =
     s\<lparr>racecall := False,
       calls := calls s
         @ (if callpc \<noteq> 0 then [(True, FuncEnter (goid (allg s (g s)) - 1)
               (if callpc = lessstack s \<or> (callpc \<ge> arena_start s \<and> callpc < arena_used s)
                then callers s 3 callpc else callpc))] else [])
         @ [(True, if write then WriteRange (goid (allg s (g s)) - 1) addr sz step pc
                   else ReadRange (goid (allg s (g s)) - 1) addr sz step pc)]
         @ (if callpc \<noteq> 0 \<and>
               (if callpc = lessstack s \<or> (callpc \<ge> arena_start s \<and> callpc < arena_used s)
                then callers s 3 callpc else callpc) \<noteq> 0
            then [(True, FuncExit (goid (allg s (g s)) - 1))] else [])\<rparr>"
  using assms by (simp add: rangeaccess_def detector_def ucast_scast_goid Let_def)

lemma rangeaccess_stack: "onstack s addr \<Longrightarrow> rangeaccess addr sz step callpc pc write s = s"
  by (simp add: rangeaccess_def)

lemma racefuncenter_eq:
  "racefuncenter pc s =
     s\<lparr>racecall := False,
       calls := calls s @ [(True, FuncEnter (goid (allg s (g s)) - 1)
          (if pc = lessstack s \<or> (pc \<ge> arena_start s \<and> pc < arena_used s) then callers s 2 pc else pc))]\<rparr>"
  by (simp add: racefuncenter_def detector_def Let_def)

lemma onstack_racecall: "onstack (s\<lparr>racecall := b\<rparr>) addr = onstack s addr"
  by (simp add: onstack_def)

lemma raceacquireg_eq:
  "raceacquireg gp addr s =
     (if raceignore (allg s (g s)) \<noteq> 0 then s
      else s\<lparr>racecall := False, calls := calls s @ [(True, Acquire (goid (allg s gp) - 1) addr)]\<rparr>)"
  by (simp add: raceacquireg_def detector_def)

lemma racereleaseg_eq:
  "racereleaseg gp addr s =
     (if raceignore (allg s (g s)) \<noteq> 0 then s
      else s\<lparr>racecall := False, calls := calls s @ [(True, Release (goid (allg s gp) - 1) addr)]\<rparr>)"
  by (simp add: racereleaseg_def detector_def)

lemma racereleasemergeg_eq:
  "racereleasemergeg gp addr s =
     (if raceignore (allg s (g s)) \<noteq> 0 then s
      else s\<lparr>racecall := False, calls := calls s @ [(True, ReleaseMerge (goid (allg s gp) - 1) addr)]\<rparr>)"
  by (simp add: racereleasemergeg_def detector_def)

lemma bump_0: "bump 0 s = s"
  by (simp add: bump_def)

lemma bump_bump: "bump d (bump e s) = bump (e + d) s"
  by (simp add: bump_def add.assoc)

lemma RaceDisable_bump: "RaceDisable s = bump 1 s"
  by (simp add: RaceDisable_def bump_def)

lemma RaceEnable_bump: "RaceEnable s = bump (- 1) s"
  by (simp add: RaceEnable_def bump_def)

lemma RaceDisable_pow: "(RaceDisable ^^ n) s = bump (of_nat n) s"
  by (induction n) (simp_all add: bump_0 RaceDisable_bump bump_bump add.commute)

lemma RaceEnable_pow: "(RaceEnable ^^ n) s = bump (- of_nat n) s"
  by (induction n) (simp_all add: bump_0 RaceEnable_bump bump_bump algebra_simps)

lemma bump_fields:
  "g (bump d s) = g s" "calls (bump d s) = calls s" "racecall (bump d s) = racecall s"
  "goid (allg (bump d s) p) = goid (allg s p)"
  "raceignore (allg (bump d s) (g s)) = raceignore (allg s (g s)) + d"
  by (simp_all add: bump_def)


lemma nest_balanced: "(RaceEnable ^^ N) ((RaceDisable ^^ N) s) = s"
  by (simp add: RaceDisable_pow RaceEnable_pow bump_bump bump_0)

lemma nest_one_short:
  fixes s :: "('w::len) word runtime"
  assumes "1 \<le> N"
  shows "(RaceEnable ^^ (N - 1)) ((RaceDisable ^^ N) s) = bump 1 s"
proof -
  have "(of_nat N :: 'w word) - of_nat (N - 1) = 1"
    using assms by (simp add: of_nat_diff)
  then show ?thesis
    by (simp add: RaceDisable_pow RaceEnable_pow bump_bump)
qed

lemma fold_toggle:
  "fold toggle_call ts s = bump (of_nat (count_list ts Disable) - of_nat (count_list ts Enable)) s"
proof (induction ts arbitrary: s)
  case Nil
  show ?case by (simp add: bump_0)
next
  case (Cons t ts)
  show ?case
    by (cases t) (simp_all add: Cons.IH RaceDisable_bump RaceEnable_bump bump_bump algebra_simps)
qed

lemma sint_neg_of_nat:
  assumes "1 \<le> k" and "k \<le> 2 ^ (LENGTH('w::len) - 1)"
  shows "sint (- of_nat k :: 'w word) = - int k"
proof -
  have "(- of_nat k :: 'w word) = of_int (- int k)"
    by simp
  moreover have "signed_take_bit (LENGTH('w) - Suc 0) (- int k) = - int k"
  proof (rule signed_take_bit_int_eq_self)
    have "int k \<le> int (2 ^ (LENGTH('w) - 1))"
      using assms(2) by (simp only: of_nat_le_iff)
    then show "- (2 ^ (LENGTH('w) - Suc 0)) \<le> - int k" by simp
    have "(0::int) < 2 ^ (LENGTH('w) - Suc 0)" by simp
    then show "- int k < 2 ^ (LENGTH('w) - Suc 0)" by linarith
  qed
  ultimately show ?thesis
    by (simp only: signed_of_int) simp
qed

lemma neg_of_nat_nonzero:
  assumes "1 \<le> k" and "k \<le> 2 ^ (LENGTH('w::len) - 1)"
  shows "(- of_nat k :: 'w word) \<noteq> 0"
proof
  assume "(- of_nat k :: 'w word) = 0"
  then have "sint (- of_nat k :: 'w word) = 0" by simp
  with sint_neg_of_nat [OF assms] assms(1) show False by simp
qed

lemma RaceEnable_full_turn:
  fixes s :: "('w::len) word runtime"
  shows "(RaceEnable ^^ (2 ^ LENGTH('w))) s = s"
  by (simp add: RaceEnable_pow bump_0)

lemma RaceEnable_256: "(RaceEnable ^^ 256) (s :: 8 word runtime) = s"
  using RaceEnable_full_turn [of s] by simp

lemma racefuncexit_eq:
  "racefuncexit s = s\<lparr>racecall := False, calls := calls s @ [(True, FuncExit (goid (allg s (g s)) - 1))]\<rparr>"
  by (simp add: racefuncexit_def detector_def)

lemma racefingo_eq:
  "racefingo s = s\<lparr>racecall := False, calls := calls s @ [(True, FinalizerGoroutine (goid (allg s (g s)) - 1))]\<rparr>"
  by (simp add: racefingo_def detector_def)

lemma racegostart_eq:
  "racegostart chgoid pc s =
     s\<lparr>racecall := False, calls := calls s @ [(True, GoStart (goid (allg s (g s)) - 1) (chgoid - 1) pc)]\<rparr>"
  by (simp add: racegostart_def detector_def)

lemma racegoend_eq:
  "racegoend chgoid s = s\<lparr>racecall := False, calls := calls s @ [(True, GoEnd (chgoid - 1))]\<rparr>"
  by (simp add: racegoend_def detector_def)

lemma forwarded_ids_same: "forwarded_ids s s = []"
  by (simp add: forwarded_ids_def)

lemma forwarded_ids_upd:
  "forwarded_ids s (s\<lparr>racecall := b, calls := calls s @ evs\<rparr>) = concat (map (\<lambda>(flag, ev). goids_of ev) evs)"
  by (simp add: forwarded_ids_def)

lemma memoryaccess_ids:
  "set (forwarded_ids s (memoryaccess addr callpc pc write s)) \<subseteq> {goid (allg s (g s)) - 1}"
  by (cases "onstack s addr")
     (simp_all add: memoryaccess_stack memoryaccess_tracked forwarded_ids_same forwarded_ids_upd)

lemma rangeaccess_ids:
  "set (forwarded_ids s (rangeaccess addr sz step callpc pc write s)) \<subseteq> {goid (allg s (g s)) - 1}"
  by (cases "onstack s addr")
     (simp_all add: rangeaccess_stack rangeaccess_tracked forwarded_ids_same forwarded_ids_upd)

lemma raceinit_ids: "forwarded_ids s (raceinit s) = []"
  by (simp add: raceinit_def detector_def forwarded_ids_def Let_def)

lemma racefini_ids: "forwarded_ids s (racefini s) = []"
  by (simp add: racefini_def detector_def forwarded_ids_def Let_def)

lemma racemapshadow_ids: "forwarded_ids s (racemapshadow addr sz s) = []"
  by (simp add: racemapshadow_def detector_def forwarded_ids_def Let_def)

lemma racefree_ids: "forwarded_ids s (racefree p s) = []"
  by (simp add: racefree_def detector_def forwarded_ids_def Let_def)

subsection \<open>The Read and Write probes\<close>

text \<open>
  Claim C1. A call of \<open>runtime\<cdot>raceread\<close> or \<open>runtime\<cdot>racewrite\<close> with an address that \<open>onstack\<close>
  reports as a stack address returns the state as it was: nothing is logged and \<open>m->racecall\<close>
  is not written. With any other address the log grows by exactly one \<open>Read\<close> (resp. \<open>Write\<close>)
  call that carries \<open>g->goid - 1\<close>, the address and the caller's program counter; the flag
  \<open>m->racecall\<close> is true when the detector is called and false when the probe returns.
\<close>

theorem probe_read_write:
  "(onstack s addr \<longrightarrow> raceread addr pc s = s \<and> racewrite addr pc s = s) \<and>
   (\<not> onstack s addr \<longrightarrow>
      calls (raceread addr pc s) = calls s @ [(True, Read (goid (allg s (g s)) - 1) addr pc)] \<and>
      racecall (raceread addr pc s) = False \<and>
      calls (racewrite addr pc s) = calls s @ [(True, Write (goid (allg s (g s)) - 1) addr pc)] \<and>
      racecall (racewrite addr pc s) = False)"
  by (simp add: raceread_eq racewrite_eq)

theorem probe_read_write_witness:
  "onstack ex 0x7FFF0000 \<and> raceread 0x7FFF0000 0x401234 ex = ex \<and> racewrite 0x7FFF0000 0x401234 ex = ex \<and>
   \<not> onstack ex 0xC000000010 \<and>
   calls (raceread 0xC000000010 0x401234 ex) = [(True, Read 2 0xC000000010 0x401234)] \<and>
   racecall (raceread 0xC000000010 0x401234 ex) = False \<and>
   calls (racewrite 0xC000000010 0x401234 ex) = [(True, Write 2 0xC000000010 0x401234)] \<and>
   racecall (racewrite 0xC000000010 0x401234 ex) = False"
  using probe_read_write [of ex "0x7FFF0000" "0x401234"] probe_read_write [of ex "0xC000000010" "0x401234"]
  by (simp add: ex_onstack ex_simps ex_allg_def)

subsection \<open>The address classifier\<close>

text \<open>
  Claim C4. \<open>onstack\<close> is a function of the segment bounds and the address alone, and an
  address is tracked (not a stack address) if and only if it lies in the data segments
  \<open>[noptrdata, enoptrbss)\<close> or in the used part \<open>[arena_start, arena_used)\<close> of the heap arena.
\<close>

theorem onstack_range_test:
  "(\<not> onstack s a) =
     ((noptrdata s \<le> a \<and> a < enoptrbss s) \<or> (arena_start s \<le> a \<and> a < arena_used s))"
  by (simp add: onstack_def)

subsection \<open>The Malloc hook\<close>

text \<open>
  Claim C7. \<open>runtime\<cdot>racemalloc\<close> returns the state as it was when \<open>m->curg\<close> is nil. Otherwise
  it logs exactly one \<open>Malloc\<close> call with \<open>m->curg->goid - 1\<close>, the address, the size and the
  program counter, whatever \<open>onstack\<close> says about the address.
\<close>

theorem malloc_hook:
  "(curg s = None \<longrightarrow> racemalloc p sz pc s = s) \<and>
   (\<forall>cg. curg s = Some cg \<longrightarrow>
      calls (racemalloc p sz pc s) = calls s @ [(True, Malloc (goid (allg s cg) - 1) p sz pc)] \<and>
      racecall (racemalloc p sz pc s) = False)"
  by (simp add: racemalloc_eq)

theorem malloc_hook_witness:
  "curg (ex\<lparr>curg := None\<rparr>) = None \<and> racemalloc 0x2000 64 0x401234 (ex\<lparr>curg := None\<rparr>) = ex\<lparr>curg := None\<rparr> \<and>
   curg ex = Some 2 \<and> onstack ex 0x2000 \<and>
   calls (racemalloc 0x2000 64 0x401234 ex) = [(True, Malloc 4 0x2000 64 0x401234)] \<and>
   racecall (racemalloc 0x2000 64 0x401234 ex) = False"
  using malloc_hook [of "ex\<lparr>curg := None\<rparr>" "0x2000" 64 "0x401234"] malloc_hook [of ex "0x2000" 64 "0x401234"]
  by (simp add: ex_onstack ex_simps ex_allg_def)

subsection \<open>The in-bridge flag is written, never read\<close>

text \<open>
  Claim C2, as amended. race.c only writes \<open>m->racecall\<close>; no function of it reads the flag.
  \<open>runtime\<cdot>raceread\<close>, \<open>runtime\<cdot>racewrite\<close>, \<open>memoryaccess\<close> and \<open>rangeaccess\<close>, entered while
  the flag is already true, make exactly the detector calls they make when entered with the
  flag false; for a tracked address \<open>runtime\<cdot>raceread\<close> and \<open>runtime\<cdot>racewrite\<close> make their one
  call. With a tracked address each of the four returns with the flag false. With a stack
  address each of the four returns the state as it was: the flag is not written and stays
  true. No access is skipped on account of the flag.
\<close>

theorem probes_do_not_read_flag:
  "calls (raceread addr pc (s\<lparr>racecall := True\<rparr>)) = calls (raceread addr pc (s\<lparr>racecall := False\<rparr>)) \<and>
   calls (racewrite addr pc (s\<lparr>racecall := True\<rparr>)) = calls (racewrite addr pc (s\<lparr>racecall := False\<rparr>)) \<and>
   calls (memoryaccess addr callpc pc write (s\<lparr>racecall := True\<rparr>))
     = calls (memoryaccess addr callpc pc write (s\<lparr>racecall := False\<rparr>)) \<and>
   calls (rangeaccess addr sz step callpc pc write (s\<lparr>racecall := True\<rparr>))
     = calls (rangeaccess addr sz step callpc pc write (s\<lparr>racecall := False\<rparr>)) \<and>
   (\<not> onstack s addr \<longrightarrow>
      calls (raceread addr pc (s\<lparr>racecall := True\<rparr>))
        = calls s @ [(True, Read (goid (allg s (g s)) - 1) addr pc)] \<and>
      calls (racewrite addr pc (s\<lparr>racecall := True\<rparr>))
        = calls s @ [(True, Write (goid (allg s (g s)) - 1) addr pc)] \<and>
      racecall (raceread addr pc (s\<lparr>racecall := True\<rparr>)) = False \<and>
      racecall (racewrite addr pc (s\<lparr>racecall := True\<rparr>)) = False \<and>
      racecall (memoryaccess addr callpc pc write (s\<lparr>racecall := True\<rparr>)) = False \<and>
      racecall (rangeaccess addr sz step callpc pc write (s\<lparr>racecall := True\<rparr>)) = False) \<and>
   (onstack s addr \<longrightarrow>
      raceread addr pc (s\<lparr>racecall := True\<rparr>) = s\<lparr>racecall := True\<rparr> \<and>
      racewrite addr pc (s\<lparr>racecall := True\<rparr>) = s\<lparr>racecall := True\<rparr> \<and>
      memoryaccess addr callpc pc write (s\<lparr>racecall := True\<rparr>) = s\<lparr>racecall := True\<rparr> \<and>
      rangeaccess addr sz step callpc pc write (s\<lparr>racecall := True\<rparr>) = s\<lparr>racecall := True\<rparr> \<and>
      racecall (raceread addr pc (s\<lparr>racecall := True\<rparr>)) = True \<and>
      racecall (racewrite addr pc (s\<lparr>racecall := True\<rparr>)) = True \<and>
      racecall (memoryaccess addr callpc pc write (s\<lparr>racecall := True\<rparr>)) = True \<and>
      racecall (rangeaccess addr sz step callpc pc write (s\<lparr>racecall := True\<rparr>)) = True)"
proof -
  have m: "calls (memoryaccess addr callpc pc write (s\<lparr>racecall := b\<rparr>))
             = calls (memoryaccess addr callpc pc write s)" for b
    by (cases "onstack s addr")
       (simp_all add: memoryaccess_stack memoryaccess_tracked onstack_racecall)
  have r: "calls (rangeaccess addr sz step callpc pc write (s\<lparr>racecall := b\<rparr>))
             = calls (rangeaccess addr sz step callpc pc write s)" for b
    by (cases "onstack s addr")
       (simp_all add: rangeaccess_stack rangeaccess_tracked onstack_racecall)
  have same: "calls (raceread addr pc (s\<lparr>racecall := True\<rparr>)) = calls (raceread addr pc (s\<lparr>racecall := False\<rparr>)) \<and>
     calls (racewrite addr pc (s\<lparr>racecall := True\<rparr>)) = calls (racewrite addr pc (s\<lparr>racecall := False\<rparr>)) \<and>
     calls (memoryaccess addr callpc pc write (s\<lparr>racecall := True\<rparr>))
       = calls (memoryaccess addr callpc pc write (s\<lparr>racecall := False\<rparr>)) \<and>
     calls (rangeaccess addr sz step callpc pc write (s\<lparr>racecall := True\<rparr>))
       = calls (rangeaccess addr sz step callpc pc write (s\<lparr>racecall := False\<rparr>))"
    by (simp add: m r raceread_eq racewrite_eq onstack_racecall)
  have tracked: "\<not> onstack s addr \<longrightarrow>
      calls (raceread addr pc (s\<lparr>racecall := True\<rparr>))
        = calls s @ [(True, Read (goid (allg s (g s)) - 1) addr pc)] \<and>
      calls (racewrite addr pc (s\<lparr>racecall := True\<rparr>))
        = calls s @ [(True, Write (goid (allg s (g s)) - 1) addr pc)] \<and>
      racecall (raceread addr pc (s\<lparr>racecall := True\<rparr>)) = False \<and>
      racecall (racewrite addr pc (s\<lparr>racecall := True\<rparr>)) = False \<and>
      racecall (memoryaccess addr callpc pc write (s\<lparr>racecall := True\<rparr>)) = False \<and>
      racecall (rangeaccess addr sz step callpc pc write (s\<lparr>racecall := True\<rparr>)) = False"
    by (simp add: raceread_eq racewrite_eq memoryaccess_tracked rangeaccess_tracked onstack_racecall)
  have stack: "onstack s addr \<longrightarrow>
      raceread addr pc (s\<lparr>racecall := True\<rparr>) = s\<lparr>racecall := True\<rparr> \<and>
      racewrite addr pc (s\<lparr>racecall := True\<rparr>) = s\<lparr>racecall := True\<rparr> \<and>
      memoryaccess addr callpc pc write (s\<lparr>racecall := True\<rparr>) = s\<lparr>racecall := True\<rparr> \<and>
      rangeaccess addr sz step callpc pc write (s\<lparr>racecall := True\<rparr>) = s\<lparr>racecall := True\<rparr> \<and>
      racecall (raceread addr pc (s\<lparr>racecall := True\<rparr>)) = True \<and>
      racecall (racewrite addr pc (s\<lparr>racecall := True\<rparr>)) = True \<and>
      racecall (memoryaccess addr callpc pc write (s\<lparr>racecall := True\<rparr>)) = True \<and>
      racecall (rangeaccess addr sz step callpc pc write (s\<lparr>racecall := True\<rparr>)) = True"
    by (simp add: raceread_eq racewrite_eq memoryaccess_stack rangeaccess_stack onstack_racecall)
  from same tracked stack show ?thesis
    by blast
qed

theorem probes_do_not_read_flag_witness:
  "\<not> onstack ex 0xC000000010 \<and>
   calls (raceread 0xC000000010 0x401234 (ex\<lparr>racecall := True\<rparr>)) = [(True, Read 2 0xC000000010 0x401234)] \<and>
   calls (racewrite 0xC000000010 0x401234 (ex\<lparr>racecall := True\<rparr>)) = [(True, Write 2 0xC000000010 0x401234)] \<and>
   racecall (raceread 0xC000000010 0x401234 (ex\<lparr>racecall := True\<rparr>)) = False \<and>
   racecall (racewrite 0xC000000010 0x401234 (ex\<lparr>racecall := True\<rparr>)) = False \<and>
   racecall (memoryaccess 0xC000000010 0x405000 0x401234 True (ex\<lparr>racecall := True\<rparr>)) = False \<and>
   racecall (rangeaccess 0xC000000010 64 8 0x405000 0x401234 True (ex\<lparr>racecall := True\<rparr>)) = False \<and>
   onstack ex 0x7FFF0000 \<and>
   raceread 0x7FFF0000 0x401234 (ex\<lparr>racecall := True\<rparr>) = ex\<lparr>racecall := True\<rparr> \<and>
   racewrite 0x7FFF0000 0x401234 (ex\<lparr>racecall := True\<rparr>) = ex\<lparr>racecall := True\<rparr> \<and>
   memoryaccess 0x7FFF0000 0x405000 0x401234 True (ex\<lparr>racecall := True\<rparr>) = ex\<lparr>racecall := True\<rparr> \<and>
   rangeaccess 0x7FFF0000 64 8 0x405000 0x401234 True (ex\<lparr>racecall := True\<rparr>) = ex\<lparr>racecall := True\<rparr> \<and>
   racecall (raceread 0x7FFF0000 0x401234 (ex\<lparr>racecall := True\<rparr>)) = True \<and>
   racecall (memoryaccess 0x7FFF0000 0x405000 0x401234 True (ex\<lparr>racecall := True\<rparr>)) = True"
proof -
  have tracked: "\<not> onstack ex 0xC000000010" and stack: "onstack ex 0x7FFF0000"
    by (simp_all add: ex_onstack)
  have "calls (raceread 0xC000000010 0x401234 (ex\<lparr>racecall := True\<rparr>))
        = calls ex @ [(True, Read (goid (allg ex (g ex)) - 1) 0xC000000010 0x401234)] \<and>
      calls (racewrite 0xC000000010 0x401234 (ex\<lparr>racecall := True\<rparr>))
        = calls ex @ [(True, Write (goid (allg ex (g ex)) - 1) 0xC000000010 0x401234)] \<and>
      racecall (raceread 0xC000000010 0x401234 (ex\<lparr>racecall := True\<rparr>)) = False \<and>
      racecall (racewrite 0xC000000010 0x401234 (ex\<lparr>racecall := True\<rparr>)) = False \<and>
      racecall (memoryaccess 0xC000000010 0x405000 0x401234 True (ex\<lparr>racecall := True\<rparr>)) = False \<and>
      racecall (rangeaccess 0xC000000010 64 8 0x405000 0x401234 True (ex\<lparr>racecall := True\<rparr>)) = False"
    using probes_do_not_read_flag [of "0xC000000010" "0x401234" ex "0x405000" True 64 8] tracked
    by blast
  moreover have "raceread 0x7FFF0000 0x401234 (ex\<lparr>racecall := True\<rparr>) = ex\<lparr>racecall := True\<rparr> \<and>
      racewrite 0x7FFF0000 0x401234 (ex\<lparr>racecall := True\<rparr>) = ex\<lparr>racecall := True\<rparr> \<and>
      memoryaccess 0x7FFF0000 0x405000 0x401234 True (ex\<lparr>racecall := True\<rparr>) = ex\<lparr>racecall := True\<rparr> \<and>
      rangeaccess 0x7FFF0000 64 8 0x405000 0x401234 True (ex\<lparr>racecall := True\<rparr>) = ex\<lparr>racecall := True\<rparr> \<and>
      racecall (raceread 0x7FFF0000 0x401234 (ex\<lparr>racecall := True\<rparr>)) = True \<and>
      racecall (racewrite 0x7FFF0000 0x401234 (ex\<lparr>racecall := True\<rparr>)) = True \<and>
      racecall (memoryaccess 0x7FFF0000 0x405000 0x401234 True (ex\<lparr>racecall := True\<rparr>)) = True \<and>
      racecall (rangeaccess 0x7FFF0000 64 8 0x405000 0x401234 True (ex\<lparr>racecall := True\<rparr>)) = True"
    using probes_do_not_read_flag [of "0x7FFF0000" "0x401234" ex "0x405000" True 64 8] stack
    by blast
  ultimately show ?thesis
    using tracked stack by (simp add: ex_simps ex_allg_def)
qed

text \<open>
  The claim as it was stated fails: entered with the flag true and a tracked address, the
  Read probe and the combined form call the detector.
\<close>

theorem flag_set_probe_still_calls:
  "racecall (ex\<lparr>racecall := True\<rparr>) = True \<and>
   calls (ex\<lparr>racecall := True\<rparr>) = [] \<and>
   calls (raceread 0xC000000010 0x401234 (ex\<lparr>racecall := True\<rparr>))
     = [(True, Read 2 0xC000000010 0x401234)] \<and>
   calls (memoryaccess 0xC000000010 0 0x401234 False (ex\<lparr>racecall := True\<rparr>))
     = [(True, Read 2 0xC000000010 0x401234)]"
  by (simp add: raceread_eq memoryaccess_tracked onstack_def ex_def ex_allg_def)

subsection \<open>The caller's program counter\<close>

text \<open>
  Claim C5. \<open>runtime\<cdot>racefuncenter\<close> forwards \<open>FuncEnter\<close> with its argument \<open>pc\<close> when \<open>pc\<close>
  is neither \<open>runtime\<cdot>lessstack\<close> nor inside \<open>[arena_start, arena_used)\<close>, and with what the
  stack walker stores for a skip of 2 frames otherwise. \<open>memoryaccess\<close> and \<open>rangeaccess\<close>,
  called with a tracked address and a non-zero \<open>callpc\<close>, first forward \<open>FuncEnter\<close> with
  \<open>callpc\<close> resolved by the same test, the walker skipping 3 frames.
\<close>

theorem caller_pc_resolved:
  "calls (racefuncenter pc s) =
     calls s @ [(True, FuncEnter (goid (allg s (g s)) - 1)
        (if pc = lessstack s \<or> (arena_start s \<le> pc \<and> pc < arena_used s) then callers s 2 pc else pc))] \<and>
   (\<not> onstack s addr \<and> callpc \<noteq> 0 \<longrightarrow>
      take 1 (drop (length (calls s)) (calls (memoryaccess addr callpc pc' write s))) =
        [(True, FuncEnter (goid (allg s (g s)) - 1)
           (if callpc = lessstack s \<or> (arena_start s \<le> callpc \<and> callpc < arena_used s)
            then callers s 3 callpc else callpc))] \<and>
      take 1 (drop (length (calls s)) (calls (rangeaccess addr sz step callpc pc' write s))) =
        [(True, FuncEnter (goid (allg s (g s)) - 1)
           (if callpc = lessstack s \<or> (arena_start s \<le> callpc \<and> callpc < arena_used s)
            then callers s 3 callpc else callpc))])"
  by (simp add: racefuncenter_eq memoryaccess_tracked rangeaccess_tracked)


theorem caller_pc_resolved_witness:
  "calls (racefuncenter 0x401000 ex) = [(True, FuncEnter 2 0x402002)] \<and>
   calls (racefuncenter 0x405000 ex) = [(True, FuncEnter 2 0x405000)] \<and>
   \<not> onstack ex 0xC000000010 \<and> (0xC000000100 :: uintptr) \<noteq> 0 \<and>
   take 1 (drop (length (calls ex)) (calls (memoryaccess 0xC000000010 0xC000000100 0x401234 True ex)))
     = [(True, FuncEnter 2 0x402003)] \<and>
   take 1 (drop (length (calls ex)) (calls (rangeaccess 0xC000000010 64 8 0xC000000100 0x401234 True ex)))
     = [(True, FuncEnter 2 0x402003)]"
  using caller_pc_resolved [of "0x401000" ex "0xC000000010" "0xC000000100" "0x401234" True 64 8]
    caller_pc_resolved [of "0x405000" ex "0xC000000010" "0xC000000100" "0x401234" True 64 8]
  by (simp add: ex_onstack ex_simps ex_allg_def)

subsection \<open>The combined forms\<close>





subsection \<open>Nested Disable and Enable\<close>

text \<open>
  Claim C8. Let the running goroutine have its counter at zero. After \<open>N\<close> calls of
  \<open>RaceDisable\<close> followed by \<open>N\<close> calls of \<open>RaceEnable\<close>, \<open>N \<ge> 1\<close>, the counter is zero again
  and \<open>Acquire\<close>, \<open>Release\<close> and \<open>ReleaseMerge\<close> are forwarded. After \<open>N\<close> calls of
  \<open>RaceDisable\<close> and \<open>N - 1\<close> calls of \<open>RaceEnable\<close> the counter is 1, which is positive on any
  counter wider than one bit, and the three events are dropped. This holds at every width of
  the counter and for every \<open>N\<close>, since the net effect of the calls is exact modulo the width.
\<close>

theorem disable_enable_nesting:
  fixes s :: "('w::len) word runtime"
  assumes "raceignore (allg s (g s)) = 0" and "1 \<le> N"
  shows
   "raceignore (allg ((RaceEnable ^^ N) ((RaceDisable ^^ N) s)) (g s)) = 0 \<and>
    calls (raceacquireg gp addr ((RaceEnable ^^ N) ((RaceDisable ^^ N) s)))
      = calls s @ [(True, Acquire (goid (allg s gp) - 1) addr)] \<and>
    calls (racereleaseg gp addr ((RaceEnable ^^ N) ((RaceDisable ^^ N) s)))
      = calls s @ [(True, Release (goid (allg s gp) - 1) addr)] \<and>
    calls (racereleasemergeg gp addr ((RaceEnable ^^ N) ((RaceDisable ^^ N) s)))
      = calls s @ [(True, ReleaseMerge (goid (allg s gp) - 1) addr)] \<and>
    raceignore (allg ((RaceEnable ^^ (N - 1)) ((RaceDisable ^^ N) s)) (g s)) = 1 \<and>
    (1 < LENGTH('w) \<longrightarrow>
       0 < sint (raceignore (allg ((RaceEnable ^^ (N - 1)) ((RaceDisable ^^ N) s)) (g s)))) \<and>
    calls (raceacquireg gp addr ((RaceEnable ^^ (N - 1)) ((RaceDisable ^^ N) s))) = calls s \<and>
    calls (racereleaseg gp addr ((RaceEnable ^^ (N - 1)) ((RaceDisable ^^ N) s))) = calls s \<and>
    calls (racereleasemergeg gp addr ((RaceEnable ^^ (N - 1)) ((RaceDisable ^^ N) s))) = calls s"
  using assms(1) nest_one_short [OF assms(2), of s]
  by (simp add: nest_balanced raceacquireg_eq racereleaseg_eq racereleasemergeg_eq bump_fields)

theorem disable_enable_nesting_witness:
  "raceignore (allg ex (g ex)) = 0 \<and> (1::nat) \<le> 3 \<and>
   raceignore (allg ((RaceEnable ^^ 3) ((RaceDisable ^^ 3) ex)) (g ex)) = 0 \<and>
   calls (raceacquireg 1 0x1000 ((RaceEnable ^^ 3) ((RaceDisable ^^ 3) ex))) = [(True, Acquire 2 0x1000)] \<and>
   calls (racereleaseg 1 0x1000 ((RaceEnable ^^ 3) ((RaceDisable ^^ 3) ex))) = [(True, Release 2 0x1000)] \<and>
   calls (racereleasemergeg 1 0x1000 ((RaceEnable ^^ 3) ((RaceDisable ^^ 3) ex))) = [(True, ReleaseMerge 2 0x1000)] \<and>
   raceignore (allg ((RaceEnable ^^ 2) ((RaceDisable ^^ 3) ex)) (g ex)) = 1 \<and>
   0 < sint (raceignore (allg ((RaceEnable ^^ 2) ((RaceDisable ^^ 3) ex)) (g ex))) \<and>
   calls (raceacquireg 1 0x1000 ((RaceEnable ^^ 2) ((RaceDisable ^^ 3) ex))) = [] \<and>
   calls (racereleaseg 1 0x1000 ((RaceEnable ^^ 2) ((RaceDisable ^^ 3) ex))) = [] \<and>
   calls (racereleasemergeg 1 0x1000 ((RaceEnable ^^ 2) ((RaceDisable ^^ 3) ex))) = []"
  using disable_enable_nesting [of ex 3 1 "0x1000"]
  by (simp add: ex_simps ex_allg_def)

subsection \<open>Acquire, Release and ReleaseMerge\<close>

text \<open>
  Claim C3, as amended. \<open>runtime\<cdot>raceacquireg\<close>, \<open>runtime\<cdot>racereleaseg\<close> and
  \<open>runtime\<cdot>racereleasemergeg\<close> take the goroutine \<open>gp\<close> on whose behalf the event is
  reported, but test the counter of \<open>g\<close>, the goroutine that makes the call. The event is
  dropped when the counter of \<open>g\<close> is not zero, in particular when it is greater than zero.
  When the counter of \<open>g\<close> is zero exactly one call is logged, with \<open>gp->goid - 1\<close> and the
  address. \<open>runtime\<cdot>raceacquire\<close>, \<open>runtime\<cdot>racerelease\<close> and \<open>runtime\<cdot>racereleasemerge\<close> pass
  \<open>g\<close> for \<open>gp\<close>; for them the goroutine tested and the goroutine reported are the same.
\<close>

theorem sync_events_gate:
  fixes s :: "('w::len) word runtime"
  shows
  "(raceignore (allg s (g s)) \<noteq> 0 \<longrightarrow>
      raceacquireg gp addr s = s \<and> racereleaseg gp addr s = s \<and> racereleasemergeg gp addr s = s) \<and>
   (0 < sint (raceignore (allg s (g s))) \<longrightarrow>
      raceacquireg gp addr s = s \<and> racereleaseg gp addr s = s \<and> racereleasemergeg gp addr s = s) \<and>
   (raceignore (allg s (g s)) = 0 \<longrightarrow>
      calls (raceacquireg gp addr s) = calls s @ [(True, Acquire (goid (allg s gp) - 1) addr)] \<and>
      racecall (raceacquireg gp addr s) = False \<and>
      calls (racereleaseg gp addr s) = calls s @ [(True, Release (goid (allg s gp) - 1) addr)] \<and>
      racecall (racereleaseg gp addr s) = False \<and>
      calls (racereleasemergeg gp addr s) = calls s @ [(True, ReleaseMerge (goid (allg s gp) - 1) addr)] \<and>
      racecall (racereleasemergeg gp addr s) = False) \<and>
   raceacquire addr s = raceacquireg (g s) addr s \<and>
   racerelease addr s = racereleaseg (g s) addr s \<and>
   racereleasemerge addr s = racereleasemergeg (g s) addr s"
proof -
  have "0 < sint (raceignore (allg s (g s))) \<longrightarrow> raceignore (allg s (g s)) \<noteq> 0"
    by auto
  then show ?thesis
    by (auto simp add: raceacquireg_eq racereleaseg_eq racereleasemergeg_eq
        raceacquire_def racerelease_def racereleasemerge_def)
qed

theorem sync_events_gate_witness:
  "raceignore (allg (ex\<lparr>g := 2\<rparr>) (g (ex\<lparr>g := 2\<rparr>))) \<noteq> 0 \<and>
   0 < sint (raceignore (allg (ex\<lparr>g := 2\<rparr>) (g (ex\<lparr>g := 2\<rparr>)))) \<and>
   raceacquireg 1 0x1000 (ex\<lparr>g := 2\<rparr>) = ex\<lparr>g := 2\<rparr> \<and>
   racereleaseg 1 0x1000 (ex\<lparr>g := 2\<rparr>) = ex\<lparr>g := 2\<rparr> \<and>
   racereleasemergeg 1 0x1000 (ex\<lparr>g := 2\<rparr>) = ex\<lparr>g := 2\<rparr> \<and>
   raceignore (allg ex (g ex)) = 0 \<and>
   calls (raceacquireg 2 0x1000 ex) = [(True, Acquire 4 0x1000)] \<and>
   calls (racereleaseg 2 0x1000 ex) = [(True, Release 4 0x1000)] \<and>
   calls (racereleasemergeg 2 0x1000 ex) = [(True, ReleaseMerge 4 0x1000)] \<and>
   racecall (raceacquireg 2 0x1000 ex) = False \<and>
   calls (racerelease 0x1000 ex) = [(True, Release 2 0x1000)]"
  using sync_events_gate [of "ex\<lparr>g := 2\<rparr>" 1 "0x1000"] sync_events_gate [of ex 2 "0x1000"]
    sync_events_gate [of ex 1 "0x1000"]
  by (simp add: ex_simps ex_allg_def)

text \<open>
  The claim as it was stated fails when \<open>gp\<close> is not the running goroutine. In \<open>ex\<close> the
  goroutine at address 2 has its counter at 2, the running one at 0: events on behalf of
  goroutine 2 are forwarded. With goroutine 2 running, an event on behalf of goroutine 1,
  whose counter is 0, is dropped.
\<close>

theorem sync_gate_reads_running_task:
  "0 < sint (raceignore (allg ex 2)) \<and>
   calls ex = [] \<and>
   calls (raceacquireg 2 0x1000 ex) = [(True, Acquire 4 0x1000)] \<and>
   calls (racereleaseg 2 0x1000 ex) = [(True, Release 4 0x1000)] \<and>
   calls (racereleasemergeg 2 0x1000 ex) = [(True, ReleaseMerge 4 0x1000)] \<and>
   raceignore (allg (ex\<lparr>g := 2\<rparr>) 1) = 0 \<and>
   calls (raceacquireg 1 0x1000 (ex\<lparr>g := 2\<rparr>)) = []"
  by (simp add: raceacquireg_eq racereleaseg_eq racereleasemergeg_eq ex_simps ex_allg_def)

subsection \<open>Identifiers are reported one less\<close>

text \<open>
  Claim C9. Every goroutine identifier that race.c hands to the detector is an identifier of
  the runtime minus one (on \<open>int32\<close>). \<open>runtime\<cdot>racegostart\<close> reports \<open>g->goid - 1\<close> for the
  parent and \<open>goid - 1\<close> for the child, \<open>runtime\<cdot>racegoend\<close> reports \<open>goid - 1\<close>. The probes, the
  function hooks, the finalizer hook and the combined forms report \<open>g->goid - 1\<close>,
  \<open>runtime\<cdot>racemalloc\<close> reports \<open>m->curg->goid - 1\<close>, the synchronisation events report
  \<open>gp->goid - 1\<close>; the remaining entry points pass no identifier. The public wrappers
  (\<open>runtime\<cdot>racereadpc\<close>, \<open>RaceRead\<close>, \<open>runtime\<cdot>raceacquire\<close> and so on) go through these.
\<close>

theorem external_identifiers:
  fixes s :: "('w::len) word runtime"
  shows
  "calls (racegostart chgoid pc s) = calls s @ [(True, GoStart (goid (allg s (g s)) - 1) (chgoid - 1) pc)] \<and>
   calls (racegoend chgoid s) = calls s @ [(True, GoEnd (chgoid - 1))] \<and>
   forwarded_ids s (racegostart chgoid pc s) = [goid (allg s (g s)) - 1, chgoid - 1] \<and>
   forwarded_ids s (racegoend chgoid s) = [chgoid - 1] \<and>
   forwarded_ids s (racefuncenter pc s) = [goid (allg s (g s)) - 1] \<and>
   forwarded_ids s (racefuncexit s) = [goid (allg s (g s)) - 1] \<and>
   forwarded_ids s (racefingo s) = [goid (allg s (g s)) - 1] \<and>
   set (forwarded_ids s (raceread addr pc s)) \<subseteq> {goid (allg s (g s)) - 1} \<and>
   set (forwarded_ids s (racewrite addr pc s)) \<subseteq> {goid (allg s (g s)) - 1} \<and>
   set (forwarded_ids s (memoryaccess addr callpc pc write s)) \<subseteq> {goid (allg s (g s)) - 1} \<and>
   set (forwarded_ids s (rangeaccess addr sz step callpc pc write s)) \<subseteq> {goid (allg s (g s)) - 1} \<and>
   set (forwarded_ids s (racemalloc addr sz pc s)) \<subseteq> {goid (allg s cg) - 1 |cg. curg s = Some cg} \<and>
   set (forwarded_ids s (raceacquireg gp addr s)) \<subseteq> {goid (allg s gp) - 1} \<and>
   set (forwarded_ids s (racereleaseg gp addr s)) \<subseteq> {goid (allg s gp) - 1} \<and>
   set (forwarded_ids s (racereleasemergeg gp addr s)) \<subseteq> {goid (allg s gp) - 1} \<and>
   forwarded_ids s (raceinit s) = [] \<and> forwarded_ids s (racefini s) = [] \<and>
   forwarded_ids s (racemapshadow addr sz s) = [] \<and> forwarded_ids s (racefree addr s) = []"
  by (simp add: racegostart_eq racegoend_eq racefuncenter_eq racefuncexit_eq racefingo_eq
      raceread_eq racewrite_eq racemalloc_eq raceacquireg_eq racereleaseg_eq racereleasemergeg_eq
      memoryaccess_ids rangeaccess_ids raceinit_ids racefini_ids racemapshadow_ids racefree_ids
      forwarded_ids_same forwarded_ids_upd split: option.split)

theorem external_identifiers_witness:
  "calls (racegostart 7 0x401234 ex) = [(True, GoStart 2 6 0x401234)] \<and>
   calls (racegoend 7 ex) = [(True, GoEnd 6)] \<and>
   forwarded_ids ex (racegostart 7 0x401234 ex) = [2, 6] \<and>
   forwarded_ids ex (racegoend 7 ex) = [6] \<and>
   forwarded_ids ex (racefuncexit ex) = [2] \<and>
   forwarded_ids ex (racefingo ex) = [2]"
  using external_identifiers [of 7 "0x401234" ex "0xC000000010" 0 True 64 8 1]
  by (simp add: ex_simps ex_allg_def)

subsection \<open>More Enable than Disable\<close>

text \<open>
  Claim C10, as amended. Let the running goroutine have its counter at zero and let a run of
  \<open>RaceDisable\<close> and \<open>RaceEnable\<close> calls, in any order, hold \<open>k\<close> more \<open>RaceEnable\<close> than
  \<open>RaceDisable\<close>, with \<open>1 \<le> k \<le> 2 ^ (w - 1)\<close> for a counter of \<open>w\<close> bits. Then the counter is
  \<open>- k\<close>, negative: nothing clamps or checks it. The test \<open>if(g->raceignore)\<close> is a test for
  non-zero, so \<open>Acquire\<close>, \<open>Release\<close> and \<open>ReleaseMerge\<close> stay dropped; the run itself calls
  the detector at no point.
\<close>

theorem enable_surplus_bounded:
  fixes s :: "('w::len) word runtime"
  assumes "raceignore (allg s (g s)) = 0"
    and "count_list ts Enable = count_list ts Disable + k"
    and "1 \<le> k" and "k \<le> 2 ^ (LENGTH('w) - 1)"
  shows
   "sint (raceignore (allg (fold toggle_call ts s) (g s))) = - int k \<and>
    sint (raceignore (allg (fold toggle_call ts s) (g s))) < 0 \<and>
    raceacquireg gp addr (fold toggle_call ts s) = fold toggle_call ts s \<and>
    racereleaseg gp addr (fold toggle_call ts s) = fold toggle_call ts s \<and>
    racereleasemergeg gp addr (fold toggle_call ts s) = fold toggle_call ts s \<and>
    calls (fold toggle_call ts s) = calls s"
proof -
  have run: "fold toggle_call ts s = bump (- of_nat k) s"
    by (simp add: fold_toggle assms(2))
  have neg: "sint (- of_nat k :: 'w word) = - int k"
    by (rule sint_neg_of_nat [OF assms(3,4)])
  have nz: "(- of_nat k :: 'w word) \<noteq> 0"
    by (rule neg_of_nat_nonzero [OF assms(3,4)])
  have ctr: "raceignore (allg (bump (- of_nat k) s) (g s)) = - of_nat k"
    by (simp add: bump_fields assms(1))
  have cur: "g (bump (- of_nat k) s) = g s"
    by (simp add: bump_fields)
  have blocked: "raceignore (allg (bump (- of_nat k) s) (g (bump (- of_nat k) s))) \<noteq> 0"
    unfolding cur ctr by (rule nz)
  have "sint (raceignore (allg (fold toggle_call ts s) (g s))) = - int k"
    unfolding run ctr by (rule neg)
  moreover from this have "sint (raceignore (allg (fold toggle_call ts s) (g s))) < 0"
    using assms(3) by simp
  moreover have "raceacquireg gp addr (fold toggle_call ts s) = fold toggle_call ts s"
    unfolding run using blocked by (simp add: raceacquireg_eq)
  moreover have "racereleaseg gp addr (fold toggle_call ts s) = fold toggle_call ts s"
    unfolding run using blocked by (simp add: racereleaseg_eq)
  moreover have "racereleasemergeg gp addr (fold toggle_call ts s) = fold toggle_call ts s"
    unfolding run using blocked by (simp add: racereleasemergeg_eq)
  moreover have "calls (fold toggle_call ts s) = calls s"
    unfolding run by (simp add: bump_fields)
  ultimately show ?thesis
    by blast
qed

theorem enable_surplus_bounded_witness:
  "raceignore (allg ex (g ex)) = 0 \<and>
   count_list [Disable, Enable, Enable, Enable] Enable = count_list [Disable, Enable, Enable, Enable] Disable + 2 \<and>
   (1::nat) \<le> 2 \<and> (2::nat) \<le> 2 ^ (LENGTH(8) - 1) \<and>
   sint (raceignore (allg (fold toggle_call [Disable, Enable, Enable, Enable] ex) (g ex))) = - 2 \<and>
   raceacquireg 1 0x1000 (fold toggle_call [Disable, Enable, Enable, Enable] ex)
     = fold toggle_call [Disable, Enable, Enable, Enable] ex \<and>
   racereleaseg 1 0x1000 (fold toggle_call [Disable, Enable, Enable, Enable] ex)
     = fold toggle_call [Disable, Enable, Enable, Enable] ex \<and>
   racereleasemergeg 1 0x1000 (fold toggle_call [Disable, Enable, Enable, Enable] ex)
     = fold toggle_call [Disable, Enable, Enable, Enable] ex \<and>
   calls (fold toggle_call [Disable, Enable, Enable, Enable] ex) = []"
proof -
  have h1: "raceignore (allg ex (g ex)) = 0" by (simp add: ex_simps ex_allg_def)
  have h2: "count_list [Disable, Enable, Enable, Enable] Enable
              = count_list [Disable, Enable, Enable, Enable] Disable + 2" by simp
  have h3: "(1::nat) \<le> 2" by simp
  have h4: "(2::nat) \<le> 2 ^ (LENGTH(8) - 1)" by simp
  show ?thesis
    using enable_surplus_bounded [OF h1 h2 h3 h4, of 1 "0x1000"] h1 h2 h4
    by (simp add: ex_simps)
qed

text \<open>
  Without the bound on \<open>k\<close> the claim fails, because the counter wraps around: on the 8-bit
  counter of \<open>ex\<close>, 256 calls of \<open>RaceEnable\<close> and none of \<open>RaceDisable\<close> bring the counter back
  to zero, and the three events are forwarded. (\<open>RaceEnable_full_turn\<close> is the same fact at
  every width.)
\<close>

theorem enable_surplus_wraps:
  "raceignore (allg ex (g ex)) = 0 \<and>
   raceignore (allg ((RaceEnable ^^ 256) ex) (g ex)) = 0 \<and>
   \<not> sint (raceignore (allg ((RaceEnable ^^ 256) ex) (g ex))) < 0 \<and>
   calls (raceacquire 0x1000 ((RaceEnable ^^ 256) ex)) = [(True, Acquire 2 0x1000)] \<and>
   calls (racerelease 0x1000 ((RaceEnable ^^ 256) ex)) = [(True, Release 2 0x1000)] \<and>
   calls (racereleasemerge 0x1000 ((RaceEnable ^^ 256) ex)) = [(True, ReleaseMerge 2 0x1000)]"
  by (simp add: RaceEnable_256 raceacquire_def racerelease_def racereleasemerge_def
      raceacquireg_eq racereleaseg_eq racereleasemergeg_eq ex_simps ex_allg_def)



end
